theory Spec2Isabelle
  imports Main
begin

section \<open>Configuration\<close>

text \<open>
  The server of \<^verbatim>\<open>setupServer.ts\<close> reads five values of the imported \<^verbatim>\<open>config\<close> object.
  Each comes from the process environment and may be undefined, hence the options.
\<close>

record config =
  NODE_ENV :: "string option"
  CLIENT_URL :: "string option"
  SECRET_KEY_ONE :: "string option"
  SECRET_KEY_TWO :: "string option"
  REDIS_HOST :: "string option"

definition SERVER_PORT :: nat where
  "SERVER_PORT = 5000"

text \<open>\<^verbatim>\<open>HTTP_STATUS.NOT_FOUND\<close> of the package http-status-codes.\<close>

definition NOT_FOUND :: int where
  "NOT_FOUND = 404"

section \<open>Options handed to the middleware factories\<close>

text \<open>The object literal of \<^verbatim>\<open>cookieSession({...})\<close>, lines 39 to 44.\<close>

record cookie_session_options =
  name :: string
  keys :: "string option list"
  maxAge :: nat
  secure :: bool

text \<open>
  The two cross-origin policies share \<^verbatim>\<open>origin\<close> and \<^verbatim>\<open>methods\<close>; the one of the HTTP
  pipeline (lines 50 to 55) has two more fields than the one of the Socket.IO server
  (lines 91 to 94).
\<close>

record cors_policy =
  origin :: "string option"
  methods :: "string list"

record cors_options = cors_policy +
  credentials :: bool
  optionsSuccessStatus :: int

text \<open>\<^verbatim>\<open>json({ limit })\<close> and \<^verbatim>\<open>urlencoded({ extended, limit })\<close>, lines 60 and 61.\<close>

record body_options =
  limit :: string

record urlencoded_options = body_options +
  extended :: bool

definition cookieSessionOptions :: "config \<Rightarrow> cookie_session_options" where
  "cookieSessionOptions cfg =
     \<lparr> name = ''session'',
       keys = [SECRET_KEY_ONE cfg, SECRET_KEY_TWO cfg],
       maxAge = 24 * 7 * 3600000,
       secure = (NODE_ENV cfg \<noteq> Some ''development'') \<rparr>"

definition corsOptions :: "config \<Rightarrow> cors_options" where
  "corsOptions cfg =
     \<lparr> origin = CLIENT_URL cfg,
       methods = [''GET'', ''POST'', ''PUT'', ''DELETE'', ''OPTIONS''],
       credentials = True,
       optionsSuccessStatus = 200 \<rparr>"

definition socketCorsOptions :: "config \<Rightarrow> cors_policy" where
  "socketCorsOptions cfg =
     \<lparr> origin = CLIENT_URL cfg,
       methods = [''GET'', ''POST'', ''PUT'', ''DELETE'', ''OPTIONS''] \<rparr>"

definition jsonOptions :: body_options where
  "jsonOptions = \<lparr> limit = ''50mb'' \<rparr>"

definition urlencodedOptions :: urlencoded_options where
  "urlencodedOptions = \<lparr> limit = ''50mb'', extended = True \<rparr>"

section \<open>Requests, response bodies and errors\<close>

text \<open>
  What the server reads of an incoming request, one that the HTTP parser of Node has
  accepted. \<open>upgrade\<close> tells whether it asks for a protocol upgrade
  (\<^verbatim>\<open>Connection: Upgrade\<close>). \<open>originalUrl\<close> is the URL of the request line, query string
  included; \<open>pathDecodes\<close> tells whether \<^verbatim>\<open>decodeURIComponent\<close> accepts its path. \<open>originHeader\<close> is the
  \<^verbatim>\<open>Origin\<close> header, \<open>contentType\<close> the media type of the \<^verbatim>\<open>Content-Type\<close> header, in lower
  case and without its parameters, and \<open>bodyLength\<close> the number of bytes of the decoded
  body (0 when there is none). A body parser can refuse a body of its type for reasons
  other than its length: \<open>headerFault\<close> is the error it raises before it reads the body (a
  charset or a content encoding it does not support), \<open>parseFault\<close> the one it raises
  while or after it reads a body within the limit (the request is aborted, the syntax is
  malformed, the parameters are too many).
  \<open>revalidates\<close> tells whether the request is conditional and its validators
  (\<^verbatim>\<open>If-None-Match\<close>, \<^verbatim>\<open>If-Modified-Since\<close>) match the answer it would get.
\<close>

record request =
  "method" :: string
  upgrade :: bool
  originalUrl :: string
  pathDecodes :: bool
  originHeader :: "string option"
  contentType :: "string option"
  headerFault :: "string option"
  bodyLength :: nat
  parseFault :: "string option"
  revalidates :: bool

datatype json =
    JString string
  | JNumber int
  | JArray "json list"
  | JObject "(string \<times> json) list"

fun field :: "string \<Rightarrow> json \<Rightarrow> json option" where
  "field k (JObject kvs) = map_of kvs k"
| "field k _ = None"

text \<open>
  A \<^verbatim>\<open>CustomError\<close> object: the class is imported from
  \<^verbatim>\<open>./shared/globals/helpers/error_handler\<close>. The handler reads its \<^verbatim>\<open>statusCode\<close> and
  calls its \<^verbatim>\<open>serializeErrors()\<close>. \<open>details\<close> holds the \<open>{message, field?}\<close> entries of
  the error.
\<close>

record custom_error =
  message :: string
  statusCode :: int
  status :: string
  details :: "(string \<times> string option) list"

text \<open>
  Whatever reaches the error middleware either is an instance of \<^verbatim>\<open>CustomError\<close> or is
  not; of the latter only a description is kept.
\<close>

datatype error =
    CustomError custom_error
  | UnknownError string

fun serializeDetail :: "string \<times> string option \<Rightarrow> json" where
  "serializeDetail (m, None) = JObject [(''message'', JString m)]"
| "serializeDetail (m, Some f) = JObject [(''message'', JString m), (''field'', JString f)]"

text \<open>
  Modelled from the spec: \<^verbatim>\<open>CustomError.serializeErrors\<close> is defined in
  \<^verbatim>\<open>./shared/globals/helpers/error_handler\<close>, which is not part of the sources at hand.
  The wire contract for known errors is
  \<^verbatim>\<open>{ message: string, statusCode: number, status: string, serializeErrors: [{message, field?}, ...] }\<close>.
\<close>

definition serializeErrors :: "custom_error \<Rightarrow> json" where
  "serializeErrors e =
     JObject [(''message'', JString (message e)),
              (''statusCode'', JNumber (statusCode e)),
              (''status'', JString (status e)),
              (''serializeErrors'', JArray (map serializeDetail (details e)))]"

section \<open>The middleware stack\<close>

text \<open>
  How a handler leaves: it ends the response, or it hands over to the next layer, with or
  without an error (\<^verbatim>\<open>next()\<close>, \<^verbatim>\<open>next(err)\<close> or a throw, which express-async-errors turns
  into \<^verbatim>\<open>next(err)\<close> for rejected promises too).
\<close>

text \<open>What a preflight response grants.\<close>

record grant =
  allowOrigin :: string
  allowMethods :: "string list"
  allowCredentials :: bool

text \<open>
  What ends a response: \<^verbatim>\<open>res.status(s).json(b)\<close>, the answer of a cors middleware to a
  preflight, or, on the wire, a status with no body.
\<close>

datatype response =
    Sent int json
  | PreflightEnded int grant
  | NoBody int

datatype step =
    Reply response
  | Continue "error option"

text \<open>
  The outcome of a request: a layer ended the response, or the request fell off the end
  of the stack, where Express calls its own final handler with the error still pending,
  if any, or the Socket.IO server took the request before Express saw it, or the
  connection was closed with no answer. Of the answers of the Socket.IO server only that
  to a preflight is described (\<open>Gateway None\<close> is any other answer of its own).
\<close>

datatype result =
    Response response
  | FinalHandler "error option"
  | Gateway "response option"
  | Dropped

text \<open>
  A layer registered by \<^verbatim>\<open>applicationRoutes(app)\<close> (module \<^verbatim>\<open>./routes\<close>, an external
  collaborator): whether it matches a request (its path and its method) and how its
  handler leaves: it has written the response with \<^verbatim>\<open>res.status(s).json(b)\<close>, or it raises an
  error with nothing written yet, or it calls \<^verbatim>\<open>next()\<close>.
\<close>

datatype handler_exit =
    Respond int json
  | Throw error
  | CallNext

record route =
  matches :: "request \<Rightarrow> bool"
  handler :: "request \<Rightarrow> handler_exit"

datatype layer =
    CookieSession cookie_session_options
  | Hpp
  | Helmet
  | Cors cors_options
  | Compression
  | Json body_options
  | Urlencoded urlencoded_options
  | Route route
  | AllStar
  | ErrorMw

section \<open>Effects\<close>

text \<open>
  Everything the server does is recorded, in order, in a trace: the layers it installs on
  the application, its log lines, the objects it constructs, the broker connections and
  the call of \<^verbatim>\<open>listen\<close>.
\<close>

datatype client = PubClient | SubClient

datatype event =
    LogError error
  | LogInfo string
  | Installed layer
  | NewHttpServer
  | NewSocketServer cors_policy
  | CreateClient "string option"
  | DuplicateClient
  | ConnectCalled client
  | ConnectResolved client
  | ConnectRejected client string
  | AdapterBound
  | ListenCalled nat

text \<open>The application (its stack of layers, in the order of registration) and the trace.\<close>

record world =
  stack :: "layer list"
  trace :: "event list"

text \<open>\<^verbatim>\<open>app.use(...)\<close> and \<^verbatim>\<open>app.all(...)\<close>: the layer goes to the end of the stack.\<close>

definition use :: "layer \<Rightarrow> world \<Rightarrow> world" where
  "use l w = w\<lparr> stack := stack w @ [l], trace := trace w @ [Installed l] \<rparr>"

definition emit :: "event \<Rightarrow> world \<Rightarrow> world" where
  "emit e w = w\<lparr> trace := trace w @ [e] \<rparr>"

section \<open>The synchronous stages of \<^verbatim>\<open>start\<close>\<close>

definition securityMiddleware :: "config \<Rightarrow> world \<Rightarrow> world" where
  "securityMiddleware cfg app =
     use (Cors (corsOptions cfg))
       (use Helmet
         (use Hpp
           (use (CookieSession (cookieSessionOptions cfg)) app)))"

definition standarMiddleware :: "world \<Rightarrow> world" where
  "standarMiddleware app =
     use (Urlencoded urlencodedOptions)
       (use (Json jsonOptions)
         (use Compression app))"

text \<open>
  \<^verbatim>\<open>applicationRoutes\<close> is the default export of the module \<^verbatim>\<open>./routes\<close>, an external
  collaborator that registers its handlers on the application. The handlers are a
  parameter here, registered in their order.
\<close>

definition applicationRoutes :: "route list \<Rightarrow> world \<Rightarrow> world" where
  "applicationRoutes routes app = fold (\<lambda>r. use (Route r)) routes app"

definition routesMiddleware :: "route list \<Rightarrow> world \<Rightarrow> world" where
  "routesMiddleware routes app = applicationRoutes routes app"

definition globalErrorHandler :: "world \<Rightarrow> world" where
  "globalErrorHandler app = use ErrorMw (use AllStar app)"

section \<open>Third-party middleware\<close>

text \<open>
  The packages cookie-session, hpp, helmet, cors, compression and body-parser are
  dependencies, not code of this server. Their handlers are modelled by what their
  documentation promises for the options the server passes, and only as far as the
  outcome of a request is concerned: cookie-session, hpp, helmet and compression
  decorate the request or the response and hand over to the next layer.
\<close>

text \<open>
  cors: with an \<^verbatim>\<open>origin\<close> that is undefined or the empty string the middleware does
  nothing and calls \<^verbatim>\<open>next()\<close>. With a string \<^verbatim>\<open>origin\<close>, a request of method \<^verbatim>\<open>OPTIONS\<close> is a
  preflight; it is answered at once (\<^verbatim>\<open>preflightContinue\<close> is not set) with the status
  \<^verbatim>\<open>optionsSuccessStatus\<close>, and the string is sent as it is in
  \<^verbatim>\<open>Access-Control-Allow-Origin\<close>, whatever the \<^verbatim>\<open>Origin\<close> of the request.
\<close>

definition cors :: "cors_options \<Rightarrow> request \<Rightarrow> step" where
  "cors opts req =
     (case origin opts of
        None \<Rightarrow> Continue None
      | Some u \<Rightarrow>
          if u = [] then Continue None
          else if method req = ''OPTIONS''
          then Reply (PreflightEnded (optionsSuccessStatus opts)
                 \<lparr> allowOrigin = u,
                   allowMethods = methods opts,
                   allowCredentials = credentials opts \<rparr>)
          else Continue None)"

text \<open>
  body-parser reads its \<^verbatim>\<open>limit\<close> with the package bytes: a decimal number and a unit,
  in powers of 1024. Only whole numbers are read here.
\<close>

definition is_digit :: "char \<Rightarrow> bool" where
  "is_digit c = (c \<in> set ''0123456789'')"

definition digit_value :: "char \<Rightarrow> nat" where
  "digit_value c = of_char c - 48"

definition parse_number :: "string \<Rightarrow> nat" where
  "parse_number ds = foldl (\<lambda>n c. 10 * n + digit_value c) 0 ds"

definition unit_bytes :: "string \<Rightarrow> nat option" where
  "unit_bytes u =
     (if u = ''b'' \<or> u = [] then Some 1
      else if u = ''kb'' then Some 1024
      else if u = ''mb'' then Some (1024 * 1024)
      else if u = ''gb'' then Some (1024 * 1024 * 1024)
      else None)"

definition bytes_parse :: "string \<Rightarrow> nat option" where
  "bytes_parse s =
     (let ds = takeWhile is_digit s; u = dropWhile is_digit s
      in if ds = [] then None
         else case unit_bytes u of None \<Rightarrow> None | Some f \<Rightarrow> Some (parse_number ds * f))"

text \<open>
  body-parser (\<^verbatim>\<open>json\<close> and \<^verbatim>\<open>urlencoded\<close> of Express): a parser leaves alone a request
  whose media type is not its own. For a body of its type it checks the charset and the
  content encoding, then reads the body, which it refuses with the error "request entity
  too large" (status 413) when it is longer than the limit, and then parses it. Every
  error is passed to \<^verbatim>\<open>next\<close>; none is an instance of \<^verbatim>\<open>CustomError\<close>.
\<close>

definition PayloadTooLarge :: error where
  "PayloadTooLarge = UnknownError ''request entity too large''"

definition over_limit :: "string \<Rightarrow> nat \<Rightarrow> bool" where
  "over_limit lim n = (case bytes_parse lim of None \<Rightarrow> False | Some l \<Rightarrow> l < n)"

definition bodyParser :: "string \<Rightarrow> string \<Rightarrow> request \<Rightarrow> step" where
  "bodyParser ty lim req =
     (if contentType req \<noteq> Some ty then Continue None
      else case headerFault req of
             Some m \<Rightarrow> Continue (Some (UnknownError m))
           | None \<Rightarrow>
               if over_limit lim (bodyLength req) then Continue (Some PayloadTooLarge)
               else case parseFault req of
                      Some m \<Rightarrow> Continue (Some (UnknownError m))
                    | None \<Rightarrow> Continue None)"

definition json_mw :: "body_options \<Rightarrow> request \<Rightarrow> step" where
  "json_mw opts req = bodyParser ''application/json'' (limit opts) req"

definition urlencoded :: "urlencoded_options \<Rightarrow> request \<Rightarrow> step" where
  "urlencoded opts req = bodyParser ''application/x-www-form-urlencoded'' (limit opts) req"

section \<open>The handlers of \<^verbatim>\<open>globalErrorHandler\<close>\<close>

text \<open>Lines 67 to 69: \<^verbatim>\<open>app.all('*', (req, res) => ...)\<close>.\<close>

definition notFoundHandler :: "request \<Rightarrow> response" where
  "notFoundHandler req =
     Sent NOT_FOUND (JObject [(''message'', JString (originalUrl req @ '' not found''))])"

text \<open>
  Lines 71 to 77: the error middleware. It logs the error, answers for an instance of
  \<^verbatim>\<open>CustomError\<close> and otherwise calls \<^verbatim>\<open>next()\<close>, with no argument. Writing the response
  throws a \<^verbatim>\<open>RangeError\<close> for a status code outside 100 to 999; Express catches what a
  handler throws and passes it to \<^verbatim>\<open>next\<close>.
\<close>

definition InvalidStatusCode :: error where
  "InvalidStatusCode = UnknownError ''Invalid status code''"

definition errorMiddleware :: "error \<Rightarrow> request \<Rightarrow> event list \<Rightarrow> step \<times> event list" where
  "errorMiddleware error req tr =
     (let tr' = tr @ [LogError error]
      in case error of
           CustomError e \<Rightarrow>
             if 100 \<le> statusCode e \<and> statusCode e \<le> 999
             then (Reply (Sent (statusCode e) (serializeErrors e)), tr')
             else (Continue (Some InvalidStatusCode), tr')
         | UnknownError d \<Rightarrow> (Continue None, tr'))"

section \<open>Dispatch of a request\<close>

text \<open>
  The layer of \<^verbatim>\<open>app.all('*', ...)\<close> matches every path and decodes it into the parameter
  of the wildcard; for a path that does not decode, Express skips the layer with the
  error "Failed to decode param" (status 400) pending.
\<close>

definition DecodeFailed :: error where
  "DecodeFailed = UnknownError ''Failed to decode param''"

fun middleware :: "layer \<Rightarrow> request \<Rightarrow> step" where
  "middleware (CookieSession opts) req = Continue None"
| "middleware Hpp req = Continue None"
| "middleware Helmet req = Continue None"
| "middleware (Cors opts) req = cors opts req"
| "middleware Compression req = Continue None"
| "middleware (Json opts) req = json_mw opts req"
| "middleware (Urlencoded opts) req = urlencoded opts req"
| "middleware (Route r) req =
     (if matches r req
      then (case handler r req of
              Respond s b \<Rightarrow> Reply (Sent s b)
            | Throw e \<Rightarrow> Continue (Some e)
            | CallNext \<Rightarrow> Continue None)
      else Continue None)"
| "middleware AllStar req =
     (if pathDecodes req then Reply (notFoundHandler req)
      else Continue (Some DecodeFailed))"
| "middleware ErrorMw req = Continue None"

text \<open>
  Express skips an error middleware (four parameters) while no error is pending, and
  every other layer while one is.
\<close>

fun dispatch :: "layer \<Rightarrow> error option \<Rightarrow> request \<Rightarrow> event list \<Rightarrow> step \<times> event list" where
  "dispatch ErrorMw (Some e) req tr = errorMiddleware e req tr"
| "dispatch ErrorMw None req tr = (Continue None, tr)"
| "dispatch l (Some e) req tr = (Continue (Some e), tr)"
| "dispatch l None req tr = (middleware l req, tr)"

text \<open>
  What Express does with a request that comes to it: the request goes down the stack
  until a layer ends the response.
\<close>

fun run :: "layer list \<Rightarrow> error option \<Rightarrow> request \<Rightarrow> event list \<Rightarrow> result \<times> event list" where
  "run [] err req tr = (FinalHandler err, tr)"
| "run (l # ls) err req tr =
     (case dispatch l err req tr of
        (Reply r, tr') \<Rightarrow> (Response r, tr')
      | (Continue err', tr') \<Rightarrow> run ls err' req tr')"

section \<open>Gateway startup\<close>

text \<open>
  The environment of one run of the process: its identifier, whether the port can be
  bound, how the promise of each \<^verbatim>\<open>connect()\<close> settles, and which of the two settles
  first.
\<close>

datatype outcome = Resolves | Rejects string | Pending

record env =
  pid :: nat
  portFree :: bool
  pubConnect :: outcome
  subConnect :: outcome
  pubSettlesFirst :: bool

datatype adapter = RedisAdapter client client

text \<open>
  The Socket.IO server: its cross-origin policy, its adapter (the in-memory default
  until \<^verbatim>\<open>io.adapter(...)\<close> is called) and the events it has handlers for.
\<close>

record io_server =
  io_cors :: cors_policy
  io_adapter :: "adapter option"
  listeners :: "string list"

text \<open>
  \<^verbatim>\<open>Promise.all\<close> over the promises taken in the order they settle: it rejects with the
  first rejection, resolves once all have resolved, and stays pending otherwise. The
  events are those that happen until the awaiting function resumes; \<open>None\<close> means it
  never does.
\<close>

fun promise_all :: "(client \<times> outcome) list \<Rightarrow> (event list \<times> (error + unit)) option" where
  "promise_all [] = Some ([], Inr ())"
| "promise_all ((c, Resolves) # rest) =
     (case promise_all rest of
        None \<Rightarrow> None
      | Some (evs, r) \<Rightarrow> Some (ConnectResolved c # evs, r))"
| "promise_all ((c, Rejects m) # rest) = Some ([ConnectRejected c m], Inl (UnknownError m))"
| "promise_all ((c, Pending) # rest) =
     (case promise_all rest of
        Some (evs, Inl e) \<Rightarrow> Some (evs, Inl e)
      | _ \<Rightarrow> None)"

definition settlements :: "env \<Rightarrow> (client \<times> outcome) list" where
  "settlements env =
     (if pubSettlesFirst env
      then [(PubClient, pubConnect env), (SubClient, subConnect env)]
      else [(SubClient, subConnect env), (PubClient, pubConnect env)])"

text \<open>
  Lines 90 to 99 of \<^verbatim>\<open>createSocteIO\<close>, up to the \<^verbatim>\<open>await\<close>: the server and the two
  clients are constructed and both \<^verbatim>\<open>connect()\<close> are called.
\<close>

definition createSocteIO_sync :: "config \<Rightarrow> world \<Rightarrow> io_server \<times> world" where
  "createSocteIO_sync cfg w =
     (let io = \<lparr> io_cors = socketCorsOptions cfg, io_adapter = None, listeners = [] \<rparr>;
          w1 = emit (NewSocketServer (socketCorsOptions cfg)) w;
          w2 = emit (CreateClient (REDIS_HOST cfg)) w1;
          w3 = emit DuplicateClient w2;
          w4 = emit (ConnectCalled PubClient) w3;
          w5 = emit (ConnectCalled SubClient) w4
      in (io, w5))"

text \<open>
  The whole of \<^verbatim>\<open>createSocteIO\<close>: a rejection of the awaited promise is thrown to the
  caller (\<open>Inl\<close>); otherwise the adapter is created and bound and the server returned.
\<close>

definition createSocteIO :: "config \<Rightarrow> env \<Rightarrow> world \<Rightarrow> ((error + io_server) \<times> world) option" where
  "createSocteIO cfg env w =
     (case createSocteIO_sync cfg w of
        (io, w5) \<Rightarrow>
          (case promise_all (settlements env) of
             None \<Rightarrow> None
           | Some (evs, Inl e) \<Rightarrow> Some (Inl e, w5\<lparr> trace := trace w5 @ evs \<rparr>)
           | Some (evs, Inr u) \<Rightarrow>
               Some (Inr (io\<lparr> io_adapter := Some (RedisAdapter PubClient SubClient) \<rparr>),
                     emit AdapterBound (w5\<lparr> trace := trace w5 @ evs \<rparr>))))"

fun digits :: "nat \<Rightarrow> string" where
  "digits n =
     (if n < 10 then [char_of (48 + n)]
      else digits (n div 10) @ [char_of (48 + n mod 10)])"

declare digits.simps [simp del]

text \<open>
  Lines 103 to 108. The callback of \<^verbatim>\<open>listen\<close> runs once the port is bound.
\<close>

definition startHttpServer :: "env \<Rightarrow> world \<Rightarrow> world" where
  "startHttpServer env w =
     (let w1 = emit (LogInfo (''Server started with process '' @ digits (pid env))) w;
          w2 = emit (ListenCalled SERVER_PORT) w1
      in if portFree env
         then emit (LogInfo (''Server running on port '' @ digits SERVER_PORT)) w2
         else w2)"

text \<open>Line 110: the body is empty.\<close>

definition socketIOConnections :: "io_server \<Rightarrow> world \<Rightarrow> io_server \<times> world" where
  "socketIOConnections io w = (io, w)"

text \<open>
  Lines 79 to 88. \<open>None\<close>: the promise of \<^verbatim>\<open>createSocteIO\<close> never settles and the function
  stays suspended at its \<^verbatim>\<open>await\<close>.
\<close>

definition startServer :: "config \<Rightarrow> env \<Rightarrow> world \<Rightarrow> world option" where
  "startServer cfg env app =
     (let w1 = emit NewHttpServer app
      in case createSocteIO cfg env w1 of
           None \<Rightarrow> None
         | Some (Inr socketIO, w2) \<Rightarrow>
             Some (snd (socketIOConnections socketIO (startHttpServer env w2)))
         | Some (Inl error, w2) \<Rightarrow> Some (emit (LogError error) w2))"

text \<open>The world at the moment \<^verbatim>\<open>startServer\<close> suspends and returns its promise.\<close>

definition startServer_sync :: "config \<Rightarrow> world \<Rightarrow> world" where
  "startServer_sync cfg app = snd (createSocteIO_sync cfg (emit NewHttpServer app))"

text \<open>
  Lines 29 to 35. \<^verbatim>\<open>start\<close> does not await \<^verbatim>\<open>startServer\<close>: the first component is the
  world when \<^verbatim>\<open>start\<close> returns, the second the world once the promise of
  \<^verbatim>\<open>startServer\<close> has settled, if it ever does.
\<close>

definition start :: "config \<Rightarrow> route list \<Rightarrow> env \<Rightarrow> world \<Rightarrow> world \<times> world option" where
  "start cfg routes env app =
     (let app1 = securityMiddleware cfg app;
          app2 = standarMiddleware app1;
          app3 = routesMiddleware routes app2;
          app4 = globalErrorHandler app3
      in (startServer_sync cfg app4, startServer cfg env app4))"

text \<open>A fresh Express application: \<^verbatim>\<open>express()\<close>.\<close>

definition new_app :: world where
  "new_app = \<lparr> stack = [], trace = [] \<rparr>"

section \<open>Serving a request\<close>

text \<open>
  \<^verbatim>\<open>new Server(httpServer, ...)\<close> attaches the Socket.IO server to the HTTP server: from
  then on it takes every request whose URL starts with its path, \<^verbatim>\<open>/socket.io/\<close>, and
  Express sees the others only. It also listens for protocol upgrades: Node hands it every
  request that asks for one, and it closes those that are not on its path. The policy of
  the attached server is read off the trace.
\<close>

fun attached :: "event list \<Rightarrow> cors_policy option" where
  "attached [] = None"
| "attached (NewSocketServer pol # evs) = Some pol"
| "attached (e # evs) = attached evs"

definition intercepted :: "request \<Rightarrow> bool" where
  "intercepted req = (take 11 (originalUrl req) = ''/socket.io/'')"

text \<open>
  The transport endpoint of the gateway, where clients open their connection: the path
  itself, with or without a query string.
\<close>

definition transportRequest :: "request \<Rightarrow> bool" where
  "transportRequest req =
     (originalUrl req = ''/socket.io/'' \<or> take 12 (originalUrl req) = ''/socket.io/?'')"

text \<open>
  On its transport endpoint the gateway runs a cors middleware of its own over the policy
  it was given; the options the policy leaves out take the defaults of the package: no
  credentials, and 204 as the status of a preflight.
\<close>

definition gatewayCors :: "cors_policy \<Rightarrow> cors_options" where
  "gatewayCors pol =
     \<lparr> origin = origin pol, methods = methods pol,
       credentials = False, optionsSuccessStatus = 204 \<rparr>"

definition socketServer :: "cors_policy \<Rightarrow> request \<Rightarrow> response option" where
  "socketServer pol req =
     (if transportRequest req
      then (case cors (gatewayCors pol) req of Reply r \<Rightarrow> Some r | Continue err \<Rightarrow> None)
      else None)"

text \<open>
  What \<^verbatim>\<open>res.status(s).json(b)\<close> puts on the wire. A conditional \<^verbatim>\<open>GET\<close> or \<^verbatim>\<open>HEAD\<close> whose
  validators match a successful answer is answered 304 instead; a status of 1xx, 204,
  205 or 304 carries no body; and the body of an answer to a \<^verbatim>\<open>HEAD\<close> request is not
  transmitted.
\<close>

definition bodiless :: "int \<Rightarrow> bool" where
  "bodiless s = ((100 \<le> s \<and> s \<le> 199) \<or> s = 204 \<or> s = 205 \<or> s = 304)"

fun on_wire :: "request \<Rightarrow> result \<Rightarrow> result" where
  "on_wire req (Response (Sent s b)) =
     (if (method req = ''GET'' \<or> method req = ''HEAD'') \<and> 200 \<le> s \<and> s < 300
         \<and> revalidates req
      then Response (NoBody 304)
      else if method req = ''HEAD'' \<or> bodiless s then Response (NoBody s)
      else Response (Sent s b))"
| "on_wire req r = r"

definition express :: "world \<Rightarrow> request \<Rightarrow> result \<times> world" where
  "express w req =
     (case run (stack w) None req (trace w) of (r, tr') \<Rightarrow> (on_wire req r, w\<lparr> trace := tr' \<rparr>))"

text \<open>
  The HTTP server. Node closes the connection of a \<^verbatim>\<open>CONNECT\<close> request, for which the
  server has no listener.
\<close>

definition serve :: "world \<Rightarrow> request \<Rightarrow> result \<times> world" where
  "serve w req =
     (if method req = ''CONNECT'' then (Dropped, w)
      else case attached (trace w) of
             None \<Rightarrow> express w req
           | Some pol \<Rightarrow>
               if upgrade req then (if intercepted req then Gateway None else Dropped, w)
               else if intercepted req then (Gateway (socketServer pol req), w)
               else express w req)"

text \<open>The requests that come to Express once the gateway is attached.\<close>

definition for_express :: "request \<Rightarrow> bool" where
  "for_express req = (method req \<noteq> ''CONNECT'' \<and> \<not> upgrade req \<and> \<not> intercepted req)"

section \<open>Reading traces\<close>

definition new_events :: "world \<Rightarrow> world \<Rightarrow> event list" where
  "new_events w w' = drop (length (trace w)) (trace w')"

definition precedes :: "event \<Rightarrow> event \<Rightarrow> event list \<Rightarrow> bool" where
  "precedes a b tr = (a \<in> set (takeWhile (\<lambda>e. e \<noteq> b) tr))"

definition occurrences :: "event \<Rightarrow> event list \<Rightarrow> nat" where
  "occurrences e tr = length (filter (\<lambda>x. x = e) tr)"

section \<open>Sample inputs\<close>

text \<open>A configuration, two environments, some routes and some requests to evaluate the model on.\<close>

definition dev_config :: config where
  "dev_config =
     \<lparr> NODE_ENV = Some ''development'',
       CLIENT_URL = Some ''http://localhost:3000'',
       SECRET_KEY_ONE = Some ''first-key'',
       SECRET_KEY_TWO = Some ''second-key'',
       REDIS_HOST = Some ''redis://localhost:6379'' \<rparr>"

definition ok_env :: env where
  "ok_env =
     \<lparr> pid = 4242, portFree = True, pubConnect = Resolves, subConnect = Resolves,
       pubSettlesFirst = False \<rparr>"

definition down_env :: env where
  "down_env =
     \<lparr> pid = 4242, portFree = True, pubConnect = Resolves,
       subConnect = Rejects ''ECONNREFUSED'', pubSettlesFirst = True \<rparr>"

definition posts_route :: route where
  "posts_route =
     \<lparr> matches = (\<lambda>req. originalUrl req = ''/api/v1/posts''),
       handler = (\<lambda>req. Respond 200 (JObject [(''message'', JString ''ok'')])) \<rparr>"

definition boom_route :: route where
  "boom_route =
     \<lparr> matches = (\<lambda>req. originalUrl req = ''/api/v1/boom''),
       handler = (\<lambda>req. Throw (UnknownError ''boom'')) \<rparr>"




text \<open>A request with no body and nothing unusual about it.\<close>

definition plain :: "string \<Rightarrow> string \<Rightarrow> request" where
  "plain m url =
     \<lparr> method = m, upgrade = False, originalUrl = url, pathDecodes = True,
       originHeader = None, contentType = None, headerFault = None, bodyLength = 0, parseFault = None,
       revalidates = False \<rparr>"

text \<open>A request with a well-formed body of the given media type and length.\<close>

definition with_body :: "string \<Rightarrow> string \<Rightarrow> string \<Rightarrow> nat \<Rightarrow> request" where
  "with_body m url ty n =
     \<lparr> method = m, upgrade = False, originalUrl = url, pathDecodes = True,
       originHeader = None, contentType = Some ty, headerFault = None, bodyLength = n, parseFault = None,
       revalidates = False \<rparr>"





definition missing_request :: request where
  "missing_request = plain ''GET'' ''/api/v1/nope?page=2''"

definition head_missing_request :: request where
  "head_missing_request = plain ''HEAD'' ''/api/v1/nope''"

definition missing_preflight :: request where
  "missing_preflight = plain ''OPTIONS'' ''/api/v1/nope''"

definition undecodable_request :: request where
  "undecodable_request = (plain ''GET'' ''/%'')\<lparr> pathDecodes := False \<rparr>"

definition crowded_form_request :: request where
  "crowded_form_request =
     (with_body ''POST'' ''/api/v1/nope'' ''application/x-www-form-urlencoded'' 6897)
       \<lparr> parseFault := Some ''too many parameters'' \<rparr>"

definition upgrade_missing_request :: request where
  "upgrade_missing_request = (plain ''GET'' ''/api/v1/nope'')\<lparr> upgrade := True \<rparr>"

definition connect_request :: request where
  "connect_request = plain ''CONNECT'' ''example.org:443''"

definition gateway_request :: request where
  "gateway_request = plain ''GET'' ''/socket.io/''"

definition gateway_preflight :: request where
  "gateway_preflight =
     (plain ''OPTIONS'' ''/socket.io/?EIO=4&transport=polling'')
       \<lparr> originHeader := Some ''http://localhost:3000'' \<rparr>"

definition boom_request :: request where
  "boom_request = plain ''GET'' ''/api/v1/boom''"

definition preflight_request :: request where
  "preflight_request =
     (plain ''OPTIONS'' ''/api/v1/posts'')\<lparr> originHeader := Some ''http://localhost:3000'' \<rparr>"





section \<open>The stack and the trace after each stage\<close>

lemma stack_use [simp]: "stack (use l w) = stack w @ [l]"
  by (simp add: use_def)

lemma trace_use [simp]: "trace (use l w) = trace w @ [Installed l]"
  by (simp add: use_def)

lemma stack_emit [simp]: "stack (emit e w) = stack w"
  by (simp add: emit_def)

lemma trace_emit [simp]: "trace (emit e w) = trace w @ [e]"
  by (simp add: emit_def)

lemma stack_applicationRoutes [simp]:
  "stack (applicationRoutes rs w) = stack w @ map Route rs"
  unfolding applicationRoutes_def by (induction rs arbitrary: w) simp_all

lemma trace_applicationRoutes [simp]:
  "trace (applicationRoutes rs w) = trace w @ map Installed (map Route rs)"
  unfolding applicationRoutes_def by (induction rs arbitrary: w) simp_all

lemma stack_securityMiddleware:
  "stack (securityMiddleware cfg w) =
     stack w @ [CookieSession (cookieSessionOptions cfg), Hpp, Helmet, Cors (corsOptions cfg)]"
  by (simp add: securityMiddleware_def)

lemma stack_standarMiddleware:
  "stack (standarMiddleware w) =
     stack w @ [Compression, Json jsonOptions, Urlencoded urlencodedOptions]"
  by (simp add: standarMiddleware_def)

lemma stack_globalErrorHandler:
  "stack (globalErrorHandler w) = stack w @ [AllStar, ErrorMw]"
  by (simp add: globalErrorHandler_def)

lemma trace_stages:
  "trace (globalErrorHandler (routesMiddleware routes
            (standarMiddleware (securityMiddleware cfg w)))) =
     trace w
     @ map Installed
         ([CookieSession (cookieSessionOptions cfg), Hpp, Helmet, Cors (corsOptions cfg)]
          @ [Compression, Json jsonOptions, Urlencoded urlencodedOptions]
          @ map Route routes
          @ [AllStar, ErrorMw])"
  by (simp add: securityMiddleware_def standarMiddleware_def routesMiddleware_def
      globalErrorHandler_def)

lemma stack_stages:
  "stack (globalErrorHandler (routesMiddleware routes
            (standarMiddleware (securityMiddleware cfg w)))) =
     stack w
     @ [CookieSession (cookieSessionOptions cfg), Hpp, Helmet, Cors (corsOptions cfg)]
     @ [Compression, Json jsonOptions, Urlencoded urlencodedOptions]
     @ map Route routes
     @ [AllStar, ErrorMw]"
  by (simp add: securityMiddleware_def standarMiddleware_def routesMiddleware_def
      globalErrorHandler_def)

lemma createSocteIO_sync_world:
  "snd (createSocteIO_sync cfg w) =
     w\<lparr> trace := trace w @ [NewSocketServer (socketCorsOptions cfg), CreateClient (REDIS_HOST cfg),
                             DuplicateClient, ConnectCalled PubClient, ConnectCalled SubClient] \<rparr>"
  by (simp add: createSocteIO_sync_def emit_def)

lemma stack_start:
  "stack (fst (start cfg routes env app)) =
     stack app
     @ [CookieSession (cookieSessionOptions cfg), Hpp, Helmet, Cors (corsOptions cfg)]
     @ [Compression, Json jsonOptions, Urlencoded urlencodedOptions]
     @ map Route routes
     @ [AllStar, ErrorMw]"
  by (simp add: start_def Let_def startServer_sync_def createSocteIO_sync_world stack_stages)

lemma trace_start:
  "trace (fst (start cfg routes env app)) =
     trace app
     @ map Installed
         ([CookieSession (cookieSessionOptions cfg), Hpp, Helmet, Cors (corsOptions cfg)]
          @ [Compression, Json jsonOptions, Urlencoded urlencodedOptions]
          @ map Route routes
          @ [AllStar, ErrorMw])
     @ [NewHttpServer, NewSocketServer (socketCorsOptions cfg),
        CreateClient (REDIS_HOST cfg), DuplicateClient,
        ConnectCalled PubClient, ConnectCalled SubClient]"
  by (simp add: start_def Let_def startServer_sync_def createSocteIO_sync_world trace_stages)

section \<open>Running a request down the stack\<close>

lemma run_append:
  "run (xs @ ys) err req tr =
     (case run xs err req tr of
        (FinalHandler err', tr') \<Rightarrow> run ys err' req tr'
      | (Response r, tr') \<Rightarrow> (Response r, tr'))"
proof (induction xs arbitrary: err tr)
  case Nil
  show ?case by simp
next
  case (Cons l ls)
  show ?case
  proof (cases "dispatch l err req tr")
    case (Pair s tr')
    then show ?thesis using Cons.IH by (cases s) simp_all
  qed
qed

lemma run_routes_error:
  "run (map Route rs) (Some e) req tr = (FinalHandler (Some e), tr)"
  by (induction rs) simp_all

lemma run_routes_unmatched:
  "\<forall>r\<in>set rs. \<not> matches r req \<Longrightarrow> run (map Route rs) None req tr = (FinalHandler None, tr)"
  by (induction rs) simp_all

lemma bytes_parse_50mb: "bytes_parse ''50mb'' = Some 52428800"
  by (simp add: bytes_parse_def is_digit_def unit_bytes_def parse_number_def digit_value_def)

lemma run_error_boundary_unknown:
  "run (map Route rs @ [AllStar, ErrorMw]) (Some (UnknownError d)) req tr =
     (FinalHandler None, tr @ [LogError (UnknownError d)])"
  by (simp add: run_append run_routes_error errorMiddleware_def)



lemma run_security_stage:
  assumes "cors (corsOptions cfg) req = Continue None"
  shows "run ([CookieSession (cookieSessionOptions cfg), Hpp, Helmet, Cors (corsOptions cfg)] @ rest)
           None req tr = run rest None req tr"
  using assms by simp

lemma run_body_stage:
  assumes "json_mw jsonOptions req = Continue None"
    and "urlencoded urlencodedOptions req = Continue None"
  shows "run ([Compression, Json jsonOptions, Urlencoded urlencodedOptions] @ rest) None req tr =
           run rest None req tr"
  using assms by simp

lemma over_limit_50mb: "over_limit ''50mb'' n = (50 * 1024 * 1024 < n)"
  by (simp add: over_limit_def bytes_parse_50mb)


section \<open>Serving from the application that \<^verbatim>\<open>start\<close> leaves\<close>

lemma attached_installed: "attached (map Installed ls @ tr) = attached tr"
  by (induction ls) simp_all

lemma attached_start:
  "attached (trace (fst (start cfg routes env new_app))) = Some (socketCorsOptions cfg)"
proof -
  have "trace (fst (start cfg routes env new_app)) =
     map Installed
         ([CookieSession (cookieSessionOptions cfg), Hpp, Helmet, Cors (corsOptions cfg)]
          @ [Compression, Json jsonOptions, Urlencoded urlencodedOptions]
          @ map Route routes
          @ [AllStar, ErrorMw])
     @ [NewHttpServer, NewSocketServer (socketCorsOptions cfg),
        CreateClient (REDIS_HOST cfg), DuplicateClient,
        ConnectCalled PubClient, ConnectCalled SubClient]"
    by (simp only: trace_start new_app_def world.simps append_Nil)
  then show ?thesis
    by (simp only: attached_installed attached.simps)
qed

lemma serve_start_express:
  "for_express req \<Longrightarrow>
     serve (fst (start cfg routes env new_app)) req =
       express (fst (start cfg routes env new_app)) req"
  by (simp add: serve_def attached_start for_express_def)

lemma serve_start_gateway:
  "method req \<noteq> ''CONNECT'' \<Longrightarrow> \<not> upgrade req \<Longrightarrow> intercepted req \<Longrightarrow>
     serve (fst (start cfg routes env new_app)) req =
       (Gateway (socketServer (socketCorsOptions cfg) req), fst (start cfg routes env new_app))"
  by (simp add: serve_def attached_start)

lemma serve_start_dropped:
  "method req = ''CONNECT'' \<or> (upgrade req \<and> \<not> intercepted req) \<Longrightarrow>
     serve (fst (start cfg routes env new_app)) req = (Dropped, fst (start cfg routes env new_app))"
  by (auto simp: serve_def attached_start)

lemma express_start:
  "express (fst (start cfg routes env new_app)) req =
     (case run ([CookieSession (cookieSessionOptions cfg), Hpp, Helmet, Cors (corsOptions cfg)]
                 @ ([Compression, Json jsonOptions, Urlencoded urlencodedOptions]
                    @ (map Route routes @ [AllStar, ErrorMw])))
             None req (trace (fst (start cfg routes env new_app))) of
        (r, tr') \<Rightarrow> (on_wire req r, (fst (start cfg routes env new_app))\<lparr> trace := tr' \<rparr>))"
  by (simp add: express_def stack_start new_app_def)

lemma transport_intercepted:
  assumes "transportRequest req"
  shows "intercepted req"
proof -
  have "take 11 (originalUrl req) = ''/socket.io/''"
    if t: "take 12 (originalUrl req) = ''/socket.io/?''"
  proof -
    have "take 11 (originalUrl req) = take 11 (take 12 (originalUrl req))"
      by (simp add: take_take)
    also have "\<dots> = take 11 ''/socket.io/?''"
      by (simp only: t)
    also have "\<dots> = ''/socket.io/''"
      by simp
    finally show ?thesis .
  qed
  with assms show ?thesis
    by (auto simp: transportRequest_def intercepted_def)
qed

section \<open>The run of \<^verbatim>\<open>startServer\<close>\<close>

lemma startServer_both_resolve:
  assumes "pubConnect env = Resolves" and "subConnect env = Resolves"
  shows "startServer cfg env app =
     Some (app\<lparr> trace := trace app
        @ [NewHttpServer, NewSocketServer (socketCorsOptions cfg),
           CreateClient (REDIS_HOST cfg), DuplicateClient,
           ConnectCalled PubClient, ConnectCalled SubClient]
        @ (if pubSettlesFirst env
           then [ConnectResolved PubClient, ConnectResolved SubClient]
           else [ConnectResolved SubClient, ConnectResolved PubClient])
        @ [AdapterBound, LogInfo (''Server started with process '' @ digits (pid env)),
           ListenCalled SERVER_PORT]
        @ (if portFree env then [LogInfo (''Server running on port '' @ digits SERVER_PORT)]
           else []) \<rparr>)"
  using assms
  by (simp add: startServer_def createSocteIO_def createSocteIO_sync_def Let_def
      settlements_def emit_def startHttpServer_def socketIOConnections_def)

lemma startServer_not_both:
  assumes "\<not> (pubConnect env = Resolves \<and> subConnect env = Resolves)"
    and "startServer cfg env app = Some w'"
  shows "\<exists>evs. w' = app\<lparr> trace := trace app
        @ [NewHttpServer, NewSocketServer (socketCorsOptions cfg),
           CreateClient (REDIS_HOST cfg), DuplicateClient,
           ConnectCalled PubClient, ConnectCalled SubClient] @ evs \<rparr>
      \<and> (\<forall>p. ListenCalled p \<notin> set evs)"
  using assms
  by (cases "pubConnect env"; cases "subConnect env"; cases "pubSettlesFirst env")
    (auto simp: startServer_def createSocteIO_def createSocteIO_sync_def Let_def
      settlements_def emit_def)

lemma startServer_listen_after_connects:
  assumes "startServer cfg env app = Some w'"
  shows "stack w' = stack app
     \<and> (\<exists>evs. trace w' =
           trace app @ [NewHttpServer, NewSocketServer (socketCorsOptions cfg),
                        CreateClient (REDIS_HOST cfg), DuplicateClient,
                        ConnectCalled PubClient, ConnectCalled SubClient] @ evs)
     \<and> (ListenCalled SERVER_PORT \<in> set (new_events app w') \<longrightarrow>
          precedes (ConnectResolved PubClient) (ListenCalled SERVER_PORT) (new_events app w')
          \<and> precedes (ConnectResolved SubClient) (ListenCalled SERVER_PORT) (new_events app w')
          \<and> precedes AdapterBound (ListenCalled SERVER_PORT) (new_events app w'))"
proof (cases "pubConnect env = Resolves \<and> subConnect env = Resolves")
  case True
  then have "startServer cfg env app = Some (app\<lparr> trace := trace app
        @ [NewHttpServer, NewSocketServer (socketCorsOptions cfg),
           CreateClient (REDIS_HOST cfg), DuplicateClient,
           ConnectCalled PubClient, ConnectCalled SubClient]
        @ (if pubSettlesFirst env
           then [ConnectResolved PubClient, ConnectResolved SubClient]
           else [ConnectResolved SubClient, ConnectResolved PubClient])
        @ [AdapterBound, LogInfo (''Server started with process '' @ digits (pid env)),
           ListenCalled SERVER_PORT]
        @ (if portFree env then [LogInfo (''Server running on port '' @ digits SERVER_PORT)]
           else []) \<rparr>)"
    by (simp add: startServer_both_resolve)
  with assms show ?thesis
    by (cases "pubSettlesFirst env") (auto simp: new_events_def precedes_def)
next
  case False
  from startServer_not_both [OF False assms] obtain evs where
    w': "w' = app\<lparr> trace := trace app
        @ [NewHttpServer, NewSocketServer (socketCorsOptions cfg),
           CreateClient (REDIS_HOST cfg), DuplicateClient,
           ConnectCalled PubClient, ConnectCalled SubClient] @ evs \<rparr>"
    and no: "\<forall>p. ListenCalled p \<notin> set evs"
    by blast
  show ?thesis using no by (simp add: w' new_events_def)
qed

lemma listen_not_installed: "ListenCalled p \<notin> set (map Installed ls)"
  by auto

lemma precedes_after_installs:
  assumes "precedes a (ListenCalled p) tr"
  shows "precedes a (ListenCalled p) (map Installed ls @ tr)"
proof -
  have "takeWhile (\<lambda>e. e \<noteq> ListenCalled p) (map Installed ls @ tr) =
          map Installed ls @ takeWhile (\<lambda>e. e \<noteq> ListenCalled p) tr"
    by (rule takeWhile_append2) auto
  with assms show ?thesis by (simp add: precedes_def)
qed

lemma new_events_split:
  assumes "trace app' = trace app @ pre" and "trace w' = trace app' @ evs"
  shows "new_events app w' = pre @ new_events app' w'"
  using assms by (simp add: new_events_def)

section \<open>The claims\<close>

text \<open>
  Claim C1 asks that an error that is not a \<^verbatim>\<open>CustomError\<close> be logged and the response
  ended with a generic failure status and message, without falling through to the
  framework. The middleware logs it, writes no response and calls \<^verbatim>\<open>next()\<close>, dropping the
  error: whatever route raised it, the request falls off the end of the stack, into the
  final handler of Express, with no error pending. The last conjunct runs the whole
  stack on a request whose route throws.
\<close>

theorem unknown_error_falls_through:
  "errorMiddleware (UnknownError d) req tr = (Continue None, tr @ [LogError (UnknownError d)])
   \<and> run (map Route rs @ [AllStar, ErrorMw]) (Some (UnknownError d)) req tr =
       (FinalHandler None, tr @ [LogError (UnknownError d)])
   \<and> run (stack (fst (start dev_config [posts_route, boom_route] ok_env new_app))) None
         boom_request [] = (FinalHandler None, [LogError (UnknownError ''boom'')])"
proof -
  have "run (stack (fst (start dev_config [posts_route, boom_route] ok_env new_app))) None
          boom_request [] = (FinalHandler None, [LogError (UnknownError ''boom'')])"
    by (simp add: stack_start new_app_def cors_def corsOptions_def dev_config_def json_mw_def
        urlencoded_def bodyParser_def boom_request_def plain_def posts_route_def boom_route_def
        errorMiddleware_def)
  then show ?thesis
    by (simp add: run_error_boundary_unknown errorMiddleware_def)
qed

text \<open>
  Claim C2 says that every request matching no registered route is answered with status
  404 and the message "<original URL> not found". That holds of the requests that reach
  the catch-all handler: those that come to Express (no \<^verbatim>\<open>CONNECT\<close>, no protocol upgrade, URL
  not under \<^verbatim>\<open>/socket.io/\<close>), that the cors middleware and both body parsers hand on, and
  whose path decodes. Such a request, matching no route, is answered by the catch-all
  handler with status 404 and the JSON body \<open>{message: "<originalUrl> not found"}\<close>, of
  which a \<^verbatim>\<open>HEAD\<close> request receives the status alone; nothing is logged.
\<close>

theorem unmatched_request_not_found:
  assumes "for_express req"
    and "cors (corsOptions cfg) req = Continue None"
    and "json_mw jsonOptions req = Continue None"
    and "urlencoded urlencodedOptions req = Continue None"
    and "pathDecodes req"
    and "\<forall>r\<in>set routes. \<not> matches r req"
  shows "serve (fst (start cfg routes env new_app)) req =
           (on_wire req
              (Response (Sent 404
                 (JObject [(''message'', JString (originalUrl req @ '' not found''))]))),
            fst (start cfg routes env new_app))
     \<and> (method req \<noteq> ''HEAD'' \<longrightarrow>
          (\<exists>body. fst (serve (fst (start cfg routes env new_app)) req) = Response (Sent 404 body)
                 \<and> field ''message'' body = Some (JString (originalUrl req @ '' not found''))))
     \<and> (method req = ''HEAD'' \<longrightarrow>
          fst (serve (fst (start cfg routes env new_app)) req) = Response (NoBody 404))"
proof -
  let ?W = "fst (start cfg routes env new_app)"
  have rest: "run (map Route routes @ [AllStar, ErrorMw]) None req tr =
      (Response (Sent 404 (JObject [(''message'', JString (originalUrl req @ '' not found''))])), tr)"
    for tr
    using assms(5)
    by (simp add: run_append run_routes_unmatched [OF assms(6)] notFoundHandler_def NOT_FOUND_def)
  have "express ?W req =
      (on_wire req
         (Response (Sent 404 (JObject [(''message'', JString (originalUrl req @ '' not found''))]))),
       ?W\<lparr> trace := trace ?W \<rparr>)"
    by (simp only: express_start run_security_stage [OF assms(2)]
        run_body_stage [OF assms(3) assms(4)] rest prod.case)
  then have "serve ?W req =
      (on_wire req
         (Response (Sent 404 (JObject [(''message'', JString (originalUrl req @ '' not found''))]))),
       ?W)"
    by (simp add: serve_start_express [OF assms(1)])
  then show ?thesis by (simp add: bodiless_def)
qed

theorem unmatched_request_not_found_witness:
  "serve (fst (start dev_config [posts_route] ok_env new_app)) missing_request =
     (Response (Sent 404 (JObject [(''message'', JString ''/api/v1/nope?page=2 not found'')])),
      fst (start dev_config [posts_route] ok_env new_app))"
proof -
  have h1: "for_express missing_request"
    by (simp add: for_express_def intercepted_def missing_request_def plain_def)
  have h2: "cors (corsOptions dev_config) missing_request = Continue None"
    by (simp add: cors_def corsOptions_def dev_config_def missing_request_def plain_def)
  have h3: "json_mw jsonOptions missing_request = Continue None"
    by (simp add: json_mw_def bodyParser_def missing_request_def plain_def)
  have h4: "urlencoded urlencodedOptions missing_request = Continue None"
    by (simp add: urlencoded_def bodyParser_def missing_request_def plain_def)
  have h5: "pathDecodes missing_request"
    by (simp add: missing_request_def plain_def)
  have h6: "\<forall>r\<in>set [posts_route]. \<not> matches r missing_request"
    by (simp add: posts_route_def missing_request_def plain_def)
  show ?thesis
    using unmatched_request_not_found [OF h1 h2 h3 h4 h5 h6, of ok_env]
    by (simp add: missing_request_def plain_def bodiless_def)
qed

text \<open>
  Where claim C2 fails as it is worded: seven requests that match no route and are not
  answered with the 404 and its message. A preflight is answered by the cors middleware
  with status 200; a request on the path of the gateway is taken by the Socket.IO server;
  a path that does not decode and a form with too many parameters end in the final
  handler of Express; a \<^verbatim>\<open>HEAD\<close> request receives no body; the connection of a protocol
  upgrade off the path of the gateway and that of a \<^verbatim>\<open>CONNECT\<close> are closed.
\<close>

theorem unmatched_request_counterexample:
  "\<not> matches posts_route missing_preflight
   \<and> fst (serve (fst (start dev_config [posts_route] ok_env new_app)) missing_preflight) =
       Response (PreflightEnded 200
         \<lparr> allowOrigin = ''http://localhost:3000'',
           allowMethods = [''GET'', ''POST'', ''PUT'', ''DELETE'', ''OPTIONS''],
           allowCredentials = True \<rparr>)
   \<and> \<not> matches posts_route gateway_request
   \<and> fst (serve (fst (start dev_config [posts_route] ok_env new_app)) gateway_request) =
       Gateway None
   \<and> \<not> matches posts_route undecodable_request
   \<and> fst (serve (fst (start dev_config [posts_route] ok_env new_app)) undecodable_request) =
       FinalHandler None
   \<and> \<not> matches posts_route crowded_form_request
   \<and> fst (serve (fst (start dev_config [posts_route] ok_env new_app)) crowded_form_request) =
       FinalHandler None
   \<and> \<not> matches posts_route head_missing_request
   \<and> fst (serve (fst (start dev_config [posts_route] ok_env new_app)) head_missing_request) =
       Response (NoBody 404)
   \<and> \<not> matches posts_route upgrade_missing_request
   \<and> fst (serve (fst (start dev_config [posts_route] ok_env new_app))
           upgrade_missing_request) = Dropped
   \<and> \<not> matches posts_route connect_request
   \<and> fst (serve (fst (start dev_config [posts_route] ok_env new_app)) connect_request) =
       Dropped"
proof -
  have f: "fst (serve (fst (start dev_config [posts_route] ok_env new_app))
           upgrade_missing_request) = Dropped"
    by (simp add: serve_start_dropped intercepted_def upgrade_missing_request_def plain_def)
  have g: "fst (serve (fst (start dev_config [posts_route] ok_env new_app)) connect_request) =
       Dropped"
    by (simp add: serve_start_dropped connect_request_def plain_def)
  have ia: "for_express missing_preflight"
    by (simp add: for_express_def intercepted_def missing_preflight_def plain_def with_body_def)
  have a: "fst (serve (fst (start dev_config [posts_route] ok_env new_app)) missing_preflight) =
       Response (PreflightEnded 200
         \<lparr> allowOrigin = ''http://localhost:3000'',
           allowMethods = [''GET'', ''POST'', ''PUT'', ''DELETE'', ''OPTIONS''],
           allowCredentials = True \<rparr>)"
    unfolding serve_start_express [OF ia]
    by (simp add: express_start cors_def corsOptions_def dev_config_def
        missing_preflight_def plain_def)
  have ib: "method gateway_request \<noteq> ''CONNECT'' \<and> \<not> upgrade gateway_request \<and> intercepted gateway_request"
    by (simp add: intercepted_def gateway_request_def plain_def with_body_def)
  have b: "fst (serve (fst (start dev_config [posts_route] ok_env new_app)) gateway_request) =
       Gateway None"
    unfolding serve_start_gateway [OF ib [THEN conjunct1] ib [THEN conjunct2, THEN conjunct1]
        ib [THEN conjunct2, THEN conjunct2]]
    by (simp add: socketServer_def transportRequest_def gatewayCors_def cors_def
        socketCorsOptions_def dev_config_def gateway_request_def plain_def)
  have ic: "for_express undecodable_request"
    by (simp add: for_express_def intercepted_def undecodable_request_def plain_def with_body_def)
  have c: "fst (serve (fst (start dev_config [posts_route] ok_env new_app)) undecodable_request) =
       FinalHandler None"
    unfolding serve_start_express [OF ic]
    by (simp add: express_start cors_def corsOptions_def dev_config_def json_mw_def
        urlencoded_def bodyParser_def posts_route_def DecodeFailed_def errorMiddleware_def
        undecodable_request_def plain_def)
  have i4: "for_express crowded_form_request"
    by (simp add: for_express_def intercepted_def crowded_form_request_def plain_def with_body_def)
  have d: "fst (serve (fst (start dev_config [posts_route] ok_env new_app)) crowded_form_request) =
       FinalHandler None"
    unfolding serve_start_express [OF i4]
    by (simp add: express_start cors_def corsOptions_def dev_config_def json_mw_def
        urlencoded_def bodyParser_def jsonOptions_def urlencodedOptions_def over_limit_50mb
        posts_route_def errorMiddleware_def crowded_form_request_def with_body_def)
  have ie: "for_express head_missing_request"
    by (simp add: for_express_def intercepted_def head_missing_request_def plain_def with_body_def)
  have e: "fst (serve (fst (start dev_config [posts_route] ok_env new_app)) head_missing_request) =
       Response (NoBody 404)"
    unfolding serve_start_express [OF ie]
    by (simp add: express_start cors_def corsOptions_def dev_config_def json_mw_def
        urlencoded_def bodyParser_def posts_route_def notFoundHandler_def NOT_FOUND_def
        head_missing_request_def plain_def)
  show ?thesis
    using a b c d e f g
    by (simp add: posts_route_def missing_preflight_def gateway_request_def
        undecodable_request_def crowded_form_request_def head_missing_request_def
        upgrade_missing_request_def connect_request_def plain_def with_body_def)
qed

text \<open>
  Claim C3. The Socket.IO server is constructed without an adapter, and nothing is bound
  before the \<^verbatim>\<open>await\<close>. Whenever \<^verbatim>\<open>createSocteIO\<close> resumes, the adapter has been bound
  only if both connections resolved, and then both resolutions precede the binding in
  the trace; a server is returned exactly when the adapter was bound, and it carries the
  adapter over the two clients. Each \<^verbatim>\<open>connect()\<close> is called once, and the function waits on
  the promises. When both connections resolve, the function does return a server.
\<close>

theorem adapter_after_both_connects:
  "io_adapter (fst (createSocteIO_sync cfg w)) = None
   \<and> AdapterBound \<notin> set (new_events w (snd (createSocteIO_sync cfg w)))
   \<and> (\<forall>r w'. createSocteIO cfg env w = Some (r, w') \<longrightarrow>
         (AdapterBound \<in> set (new_events w w') \<longrightarrow>
            pubConnect env = Resolves \<and> subConnect env = Resolves
            \<and> precedes (ConnectResolved PubClient) AdapterBound (new_events w w')
            \<and> precedes (ConnectResolved SubClient) AdapterBound (new_events w w'))
         \<and> ((\<exists>io. r = Inr io) = (AdapterBound \<in> set (new_events w w')))
         \<and> (\<forall>io. r = Inr io \<longrightarrow> io_adapter io = Some (RedisAdapter PubClient SubClient))
         \<and> occurrences (ConnectCalled PubClient) (new_events w w') = 1
         \<and> occurrences (ConnectCalled SubClient) (new_events w w') = 1)
   \<and> (pubConnect env = Resolves \<and> subConnect env = Resolves \<longrightarrow>
         (\<exists>io w'. createSocteIO cfg env w = Some (Inr io, w')))"
  by (cases "pubConnect env"; cases "subConnect env"; cases "pubSettlesFirst env")
    (auto simp: createSocteIO_def createSocteIO_sync_def Let_def settlements_def
      new_events_def precedes_def occurrences_def emit_def)

theorem adapter_after_both_connects_witness:
  "\<exists>io w'. createSocteIO dev_config ok_env new_app = Some (Inr io, w')
      \<and> io_adapter io = Some (RedisAdapter PubClient SubClient)
      \<and> AdapterBound \<in> set (new_events new_app w')
      \<and> precedes (ConnectResolved PubClient) AdapterBound (new_events new_app w')
      \<and> precedes (ConnectResolved SubClient) AdapterBound (new_events new_app w')"
proof -
  have ok: "pubConnect ok_env = Resolves \<and> subConnect ok_env = Resolves"
    by (simp add: ok_env_def)
  note main = adapter_after_both_connects [of dev_config new_app ok_env]
  from main ok obtain io w' where r: "createSocteIO dev_config ok_env new_app = Some (Inr io, w')"
    by blast
  from main r have "AdapterBound \<in> set (new_events new_app w')" by blast
  with main r show ?thesis by blast
qed

text \<open>
  Claim C4. When either connection is rejected, \<^verbatim>\<open>startServer\<close> still returns: the
  rejection is caught and logged, once, as the last thing the function does; \<^verbatim>\<open>listen\<close> is
  never called and no adapter is bound; each \<^verbatim>\<open>connect()\<close> was called once, so nothing is
  retried; and the stack of the application is untouched.
\<close>

theorem broker_failure_logged_not_listening:
  assumes "pubConnect env = Rejects m \<or> subConnect env = Rejects m"
  shows "\<exists>w' m'. startServer cfg env app = Some w'
           \<and> (pubConnect env = Rejects m' \<or> subConnect env = Rejects m')
           \<and> last (trace w') = LogError (UnknownError m')
           \<and> occurrences (LogError (UnknownError m')) (new_events app w') = 1
           \<and> (\<forall>p. ListenCalled p \<notin> set (new_events app w'))
           \<and> AdapterBound \<notin> set (new_events app w')
           \<and> occurrences (ConnectCalled PubClient) (new_events app w') = 1
           \<and> occurrences (ConnectCalled SubClient) (new_events app w') = 1
           \<and> stack w' = stack app"
  using assms
  by (cases "pubConnect env"; cases "subConnect env"; cases "pubSettlesFirst env")
    (auto simp: startServer_def createSocteIO_def createSocteIO_sync_def Let_def
      settlements_def new_events_def occurrences_def emit_def)

theorem broker_failure_logged_not_listening_witness:
  "startServer dev_config down_env new_app =
     Some \<lparr> stack = [],
            trace = [NewHttpServer, NewSocketServer (socketCorsOptions dev_config),
                     CreateClient (Some ''redis://localhost:6379''), DuplicateClient,
                     ConnectCalled PubClient, ConnectCalled SubClient,
                     ConnectResolved PubClient, ConnectRejected SubClient ''ECONNREFUSED'',
                     LogError (UnknownError ''ECONNREFUSED'')] \<rparr>"
proof -
  have h: "pubConnect down_env = Rejects ''ECONNREFUSED''
           \<or> subConnect down_env = Rejects ''ECONNREFUSED''"
    by (simp add: down_env_def)
  from broker_failure_logged_not_listening [OF h, of dev_config new_app]
  obtain w' where "startServer dev_config down_env new_app = Some w'" by blast
  then show ?thesis
    by (simp add: startServer_def createSocteIO_def createSocteIO_sync_def Let_def
        settlements_def emit_def down_env_def dev_config_def new_app_def)
qed




text \<open>
  Claim C6. The session cookie is named "session", is signed with the list of exactly
  the two configured keys, lives for 7 days counted in milliseconds, and is not marked
  secure exactly when \<^verbatim>\<open>NODE_ENV\<close> is "development". These options depend on the
  configuration alone, and the cookie-session layer built from them is the first of the
  stack.
\<close>

theorem session_credential_options:
  "name (cookieSessionOptions cfg) = ''session''
   \<and> keys (cookieSessionOptions cfg) = [SECRET_KEY_ONE cfg, SECRET_KEY_TWO cfg]
   \<and> length (keys (cookieSessionOptions cfg)) = 2
   \<and> maxAge (cookieSessionOptions cfg) = 7 * 24 * 60 * 60 * 1000
   \<and> (secure (cookieSessionOptions cfg) = False) = (NODE_ENV cfg = Some ''development'')
   \<and> hd (stack (securityMiddleware cfg new_app)) = CookieSession (cookieSessionOptions cfg)"
  by (simp add: cookieSessionOptions_def stack_securityMiddleware new_app_def)

text \<open>
  Claim C7. The trace orders everything \<^verbatim>\<open>start\<close> does: the layers of the security stage
  are installed first, then those of request parsing, then the routes, then the catch-all
  handler and the error middleware, and only then is the HTTP server constructed and the
  gateway started. When \<^verbatim>\<open>start\<close> returns, the four synchronous stages are complete and the
  gateway stage has come as far as calling both \<^verbatim>\<open>connect()\<close>: the rest of \<^verbatim>\<open>startServer\<close>
  changes the stack no more and only extends this trace. \<^verbatim>\<open>listen\<close> is called only after
  both connections have resolved and the adapter is bound, and it is called when both
  resolve.
\<close>

theorem start_stage_order:
  "stack (fst (start cfg routes env app)) =
     stack app
     @ [CookieSession (cookieSessionOptions cfg), Hpp, Helmet, Cors (corsOptions cfg)]
     @ [Compression, Json jsonOptions, Urlencoded urlencodedOptions]
     @ map Route routes
     @ [AllStar, ErrorMw]
   \<and> trace (fst (start cfg routes env app)) =
       trace app
       @ map Installed
           ([CookieSession (cookieSessionOptions cfg), Hpp, Helmet, Cors (corsOptions cfg)]
            @ [Compression, Json jsonOptions, Urlencoded urlencodedOptions]
            @ map Route routes
            @ [AllStar, ErrorMw])
       @ [NewHttpServer, NewSocketServer (socketCorsOptions cfg),
          CreateClient (REDIS_HOST cfg), DuplicateClient,
          ConnectCalled PubClient, ConnectCalled SubClient]
   \<and> (\<forall>w'. snd (start cfg routes env app) = Some w' \<longrightarrow>
         stack w' = stack (fst (start cfg routes env app))
         \<and> (\<exists>evs. trace w' = trace (fst (start cfg routes env app)) @ evs)
         \<and> (ListenCalled SERVER_PORT \<in> set (new_events app w') \<longrightarrow>
              precedes (ConnectResolved PubClient) (ListenCalled SERVER_PORT) (new_events app w')
              \<and> precedes (ConnectResolved SubClient) (ListenCalled SERVER_PORT) (new_events app w')
              \<and> precedes AdapterBound (ListenCalled SERVER_PORT) (new_events app w')))
   \<and> (pubConnect env = Resolves \<and> subConnect env = Resolves \<longrightarrow>
         (\<exists>w'. snd (start cfg routes env app) = Some w'
               \<and> ListenCalled SERVER_PORT \<in> set (new_events app w')))"
proof -
  let ?app4 = "globalErrorHandler (routesMiddleware routes
                 (standarMiddleware (securityMiddleware cfg app)))"
  let ?L = "[CookieSession (cookieSessionOptions cfg), Hpp, Helmet, Cors (corsOptions cfg)]
            @ [Compression, Json jsonOptions, Urlencoded urlencodedOptions]
            @ map Route routes
            @ [AllStar, ErrorMw]"
  let ?G = "[NewHttpServer, NewSocketServer (socketCorsOptions cfg),
             CreateClient (REDIS_HOST cfg), DuplicateClient,
             ConnectCalled PubClient, ConnectCalled SubClient]"
  have snd_start: "snd (start cfg routes env app) = startServer cfg env ?app4"
    by (simp add: start_def Let_def)
  have a: "stack (fst (start cfg routes env app)) = stack app @ ?L"
    using stack_start [of cfg routes env app] by simp
  have b: "trace (fst (start cfg routes env app)) = trace app @ map Installed ?L @ ?G"
    by (rule trace_start)
  have st4: "stack ?app4 = stack (fst (start cfg routes env app))"
    using stack_stages [of routes cfg app] a by simp
  have tr4: "trace ?app4 = trace app @ map Installed ?L"
    by (rule trace_stages)
  have later: "stack w' = stack (fst (start cfg routes env app))
         \<and> (\<exists>evs. trace w' = trace (fst (start cfg routes env app)) @ evs)
         \<and> (ListenCalled SERVER_PORT \<in> set (new_events app w') \<longrightarrow>
              precedes (ConnectResolved PubClient) (ListenCalled SERVER_PORT) (new_events app w')
              \<and> precedes (ConnectResolved SubClient) (ListenCalled SERVER_PORT) (new_events app w')
              \<and> precedes AdapterBound (ListenCalled SERVER_PORT) (new_events app w'))"
    if h: "snd (start cfg routes env app) = Some w'" for w'
  proof -
    from h have s: "startServer cfg env ?app4 = Some w'"
      by (simp only: snd_start)
    note L = startServer_listen_after_connects [OF s]
    from L have 1: "stack w' = stack (fst (start cfg routes env app))"
      by (simp only: st4)
    from L obtain evs where evs: "trace w' = trace ?app4 @ ?G @ evs"
      by blast
    have 2: "\<exists>evs. trace w' = trace (fst (start cfg routes env app)) @ evs"
      using evs by (simp add: b tr4)
    have ne: "new_events app w' = map Installed ?L @ new_events ?app4 w'"
      by (rule new_events_split [OF tr4 evs])
    have 3: "precedes (ConnectResolved PubClient) (ListenCalled SERVER_PORT) (new_events app w')
          \<and> precedes (ConnectResolved SubClient) (ListenCalled SERVER_PORT) (new_events app w')
          \<and> precedes AdapterBound (ListenCalled SERVER_PORT) (new_events app w')"
      if l: "ListenCalled SERVER_PORT \<in> set (new_events app w')"
    proof -
      from l have "ListenCalled SERVER_PORT \<in> set (new_events ?app4 w')"
        unfolding ne using listen_not_installed [of SERVER_PORT ?L] by auto
      with L have p:
        "precedes (ConnectResolved PubClient) (ListenCalled SERVER_PORT) (new_events ?app4 w')
         \<and> precedes (ConnectResolved SubClient) (ListenCalled SERVER_PORT) (new_events ?app4 w')
         \<and> precedes AdapterBound (ListenCalled SERVER_PORT) (new_events ?app4 w')"
        by blast
      show ?thesis
        unfolding ne using p by (blast intro: precedes_after_installs)
    qed
    from 1 2 3 show ?thesis by blast
  qed
  then have c: "\<forall>w'. snd (start cfg routes env app) = Some w' \<longrightarrow>
         stack w' = stack (fst (start cfg routes env app))
         \<and> (\<exists>evs. trace w' = trace (fst (start cfg routes env app)) @ evs)
         \<and> (ListenCalled SERVER_PORT \<in> set (new_events app w') \<longrightarrow>
              precedes (ConnectResolved PubClient) (ListenCalled SERVER_PORT) (new_events app w')
              \<and> precedes (ConnectResolved SubClient) (ListenCalled SERVER_PORT) (new_events app w')
              \<and> precedes AdapterBound (ListenCalled SERVER_PORT) (new_events app w'))"
    by blast
  have d: "pubConnect env = Resolves \<and> subConnect env = Resolves \<longrightarrow>
         (\<exists>w'. snd (start cfg routes env app) = Some w'
               \<and> ListenCalled SERVER_PORT \<in> set (new_events app w'))"
    unfolding snd_start by (simp add: startServer_both_resolve new_events_def tr4)
  show ?thesis
    by (intro conjI) (rule stack_start, rule trace_start, rule c, rule d)
qed

theorem start_stage_order_witness:
  "\<exists>w'. snd (start dev_config [posts_route] ok_env new_app) = Some w'
      \<and> stack w' = [CookieSession (cookieSessionOptions dev_config), Hpp, Helmet,
                      Cors (corsOptions dev_config), Compression, Json jsonOptions,
                      Urlencoded urlencodedOptions, Route posts_route, AllStar, ErrorMw]
      \<and> take 11 (trace w') =
          [Installed (CookieSession (cookieSessionOptions dev_config)), Installed Hpp,
           Installed Helmet, Installed (Cors (corsOptions dev_config)),
           Installed Compression, Installed (Json jsonOptions),
           Installed (Urlencoded urlencodedOptions), Installed (Route posts_route),
           Installed AllStar, Installed ErrorMw, NewHttpServer]
      \<and> ListenCalled SERVER_PORT \<in> set (new_events new_app w')
      \<and> precedes (ConnectResolved PubClient) (ListenCalled SERVER_PORT) (new_events new_app w')
      \<and> precedes (ConnectResolved SubClient) (ListenCalled SERVER_PORT) (new_events new_app w')
      \<and> precedes AdapterBound (ListenCalled SERVER_PORT) (new_events new_app w')"
proof -
  have ok: "pubConnect ok_env = Resolves \<and> subConnect ok_env = Resolves"
    by (simp add: ok_env_def)
  note main = start_stage_order [of dev_config "[posts_route]" ok_env new_app]
  from main ok obtain w' where
    r: "snd (start dev_config [posts_route] ok_env new_app) = Some w'"
    and l: "ListenCalled SERVER_PORT \<in> set (new_events new_app w')"
    by blast
  from main r have st: "stack w' = stack (fst (start dev_config [posts_route] ok_env new_app))"
    by blast
  from main have "stack (fst (start dev_config [posts_route] ok_env new_app)) =
      [CookieSession (cookieSessionOptions dev_config), Hpp, Helmet,
       Cors (corsOptions dev_config), Compression, Json jsonOptions,
       Urlencoded urlencodedOptions, Route posts_route, AllStar, ErrorMw]"
    by (simp add: new_app_def)
  with st have st': "stack w' =
      [CookieSession (cookieSessionOptions dev_config), Hpp, Helmet,
       Cors (corsOptions dev_config), Compression, Json jsonOptions,
       Urlencoded urlencodedOptions, Route posts_route, AllStar, ErrorMw]"
    by simp
  from main r obtain evs where
    "trace w' = trace (fst (start dev_config [posts_route] ok_env new_app)) @ evs"
    by blast
  moreover from main have "trace (fst (start dev_config [posts_route] ok_env new_app)) =
      [Installed (CookieSession (cookieSessionOptions dev_config)), Installed Hpp,
       Installed Helmet, Installed (Cors (corsOptions dev_config)),
       Installed Compression, Installed (Json jsonOptions),
       Installed (Urlencoded urlencodedOptions), Installed (Route posts_route),
       Installed AllStar, Installed ErrorMw, NewHttpServer,
       NewSocketServer (socketCorsOptions dev_config),
       CreateClient (REDIS_HOST dev_config), DuplicateClient,
       ConnectCalled PubClient, ConnectCalled SubClient]"
    by (simp add: new_app_def)
  ultimately have tk: "take 11 (trace w') =
      [Installed (CookieSession (cookieSessionOptions dev_config)), Installed Hpp,
       Installed Helmet, Installed (Cors (corsOptions dev_config)),
       Installed Compression, Installed (Json jsonOptions),
       Installed (Urlencoded urlencodedOptions), Installed (Route posts_route),
       Installed AllStar, Installed ErrorMw, NewHttpServer]"
    by simp
  from main r l have p:
    "precedes (ConnectResolved PubClient) (ListenCalled SERVER_PORT) (new_events new_app w')
     \<and> precedes (ConnectResolved SubClient) (ListenCalled SERVER_PORT) (new_events new_app w')
     \<and> precedes AdapterBound (ListenCalled SERVER_PORT) (new_events new_app w')"
    by blast
  from r st' tk l p show ?thesis by blast
qed

text \<open>
  Claim C8 says that a preflight succeeds with status 200 and is granted the methods and
  credentials, for HTTP requests and the gateway handshake alike. With a configured
  client origin \<open>u\<close>, the policies of the HTTP pipeline and of the Socket.IO server do name
  this one origin and the same five methods, and the gateway runs under the policy of
  its own. A preflight that comes to Express, whatever its \<^verbatim>\<open>Origin\<close> header, is answered with
  status 200 and is granted the origin \<open>u\<close>, exactly the methods GET, POST, PUT, DELETE and
  OPTIONS, and credentials. A preflight on the transport endpoint of the gateway is
  answered by the gateway, for the same origin and methods, but with status 204 and
  without credentials.
\<close>

theorem cross_origin_policy:
  assumes "CLIENT_URL cfg = Some u" and "u \<noteq> []" and "method req = ''OPTIONS''"
  shows "origin (corsOptions cfg) = Some u \<and> origin (socketCorsOptions cfg) = Some u
     \<and> methods (socketCorsOptions cfg) = methods (corsOptions cfg)
     \<and> set (methods (corsOptions cfg)) = {''GET'', ''POST'', ''PUT'', ''DELETE'', ''OPTIONS''}
     \<and> distinct (methods (corsOptions cfg))
     \<and> attached (trace (fst (start cfg routes env new_app))) = Some (socketCorsOptions cfg)
     \<and> (for_express req \<longrightarrow>
          serve (fst (start cfg routes env new_app)) req =
            (Response (PreflightEnded 200
               \<lparr> allowOrigin = u,
                 allowMethods = [''GET'', ''POST'', ''PUT'', ''DELETE'', ''OPTIONS''],
                 allowCredentials = True \<rparr>),
             fst (start cfg routes env new_app)))
     \<and> (transportRequest req \<and> \<not> upgrade req \<longrightarrow>
          serve (fst (start cfg routes env new_app)) req =
            (Gateway (Some (PreflightEnded 204
               \<lparr> allowOrigin = u,
                 allowMethods = [''GET'', ''POST'', ''PUT'', ''DELETE'', ''OPTIONS''],
                 allowCredentials = False \<rparr>)),
             fst (start cfg routes env new_app)))"
proof -
  let ?W = "fst (start cfg routes env new_app)"
  have http: "serve ?W req =
            (Response (PreflightEnded 200
               \<lparr> allowOrigin = u,
                 allowMethods = [''GET'', ''POST'', ''PUT'', ''DELETE'', ''OPTIONS''],
                 allowCredentials = True \<rparr>), ?W)"
    if i: "for_express req"
    unfolding serve_start_express [OF i]
    using assms by (simp add: express_start cors_def corsOptions_def)
  have gw: "serve ?W req =
            (Gateway (Some (PreflightEnded 204
               \<lparr> allowOrigin = u,
                 allowMethods = [''GET'', ''POST'', ''PUT'', ''DELETE'', ''OPTIONS''],
                 allowCredentials = False \<rparr>)), ?W)"
    if t: "transportRequest req" and nu: "\<not> upgrade req"
  proof -
    have nc: "method req \<noteq> ''CONNECT''"
      using assms(3) by simp
    show ?thesis
      unfolding serve_start_gateway [OF nc nu transport_intercepted [OF t]]
      using assms t by (simp add: socketServer_def gatewayCors_def cors_def socketCorsOptions_def)
  qed
  have cfg: "origin (corsOptions cfg) = Some u \<and> origin (socketCorsOptions cfg) = Some u
     \<and> methods (socketCorsOptions cfg) = methods (corsOptions cfg)
     \<and> set (methods (corsOptions cfg)) = {''GET'', ''POST'', ''PUT'', ''DELETE'', ''OPTIONS''}
     \<and> distinct (methods (corsOptions cfg))"
    using assms by (simp add: corsOptions_def socketCorsOptions_def)
  from cfg have c1: "origin (corsOptions cfg) = Some u"
    and c2: "origin (socketCorsOptions cfg) = Some u"
    and c3: "methods (socketCorsOptions cfg) = methods (corsOptions cfg)"
    and c4: "set (methods (corsOptions cfg)) = {''GET'', ''POST'', ''PUT'', ''DELETE'', ''OPTIONS''}"
    and c5: "distinct (methods (corsOptions cfg))"
    by simp_all
  have http': "for_express req \<longrightarrow>
          serve ?W req =
            (Response (PreflightEnded 200
               \<lparr> allowOrigin = u,
                 allowMethods = [''GET'', ''POST'', ''PUT'', ''DELETE'', ''OPTIONS''],
                 allowCredentials = True \<rparr>), ?W)"
    using http by (intro impI)
  have gw': "transportRequest req \<and> \<not> upgrade req \<longrightarrow>
          serve ?W req =
            (Gateway (Some (PreflightEnded 204
               \<lparr> allowOrigin = u,
                 allowMethods = [''GET'', ''POST'', ''PUT'', ''DELETE'', ''OPTIONS''],
                 allowCredentials = False \<rparr>)), ?W)"
    using gw by (intro impI) (elim conjE)
  show ?thesis
    by (intro conjI) (rule c1, rule c2, rule c3, rule c4, rule c5, rule attached_start,
        rule http', rule gw')
qed

theorem cross_origin_policy_witness:
  "serve (fst (start dev_config [posts_route] ok_env new_app)) preflight_request =
     (Response (PreflightEnded 200
        \<lparr> allowOrigin = ''http://localhost:3000'',
          allowMethods = [''GET'', ''POST'', ''PUT'', ''DELETE'', ''OPTIONS''],
          allowCredentials = True \<rparr>),
      fst (start dev_config [posts_route] ok_env new_app))
   \<and> origin (socketCorsOptions dev_config) = Some ''http://localhost:3000''"
proof -
  have h1: "CLIENT_URL dev_config = Some ''http://localhost:3000''"
    by (simp add: dev_config_def)
  have h2: "''http://localhost:3000'' \<noteq> []" by simp
  have h3: "method preflight_request = ''OPTIONS''"
    by (simp add: preflight_request_def plain_def)
  have h4: "for_express preflight_request"
    by (simp add: for_express_def intercepted_def preflight_request_def plain_def)
  show ?thesis
    using cross_origin_policy [OF h1 h2 h3, of "[posts_route]" ok_env] h4 by blast
qed

text \<open>
  Where claim C8 fails as it is worded: the preflight of a gateway handshake from the
  configured origin is answered with status 204, not 200, and is granted no credentials.
\<close>

theorem cross_origin_policy_counterexample:
  "originHeader gateway_preflight = CLIENT_URL dev_config
   \<and> method gateway_preflight = ''OPTIONS''
   \<and> fst (serve (fst (start dev_config [posts_route] ok_env new_app)) gateway_preflight) =
       Gateway (Some (PreflightEnded 204
         \<lparr> allowOrigin = ''http://localhost:3000'',
           allowMethods = [''GET'', ''POST'', ''PUT'', ''DELETE'', ''OPTIONS''],
           allowCredentials = False \<rparr>))"
proof -
  have i: "method gateway_preflight \<noteq> ''CONNECT'' \<and> \<not> upgrade gateway_preflight \<and> intercepted gateway_preflight"
    by (simp add: intercepted_def gateway_preflight_def plain_def)
  have "fst (serve (fst (start dev_config [posts_route] ok_env new_app)) gateway_preflight) =
       Gateway (Some (PreflightEnded 204
         \<lparr> allowOrigin = ''http://localhost:3000'',
           allowMethods = [''GET'', ''POST'', ''PUT'', ''DELETE'', ''OPTIONS''],
           allowCredentials = False \<rparr>))"
    unfolding serve_start_gateway [OF i [THEN conjunct1] i [THEN conjunct2, THEN conjunct1]
        i [THEN conjunct2, THEN conjunct2]]
    by (simp add: socketServer_def transportRequest_def gatewayCors_def cors_def
        socketCorsOptions_def dev_config_def gateway_preflight_def plain_def)
  then show ?thesis
    by (simp add: gateway_preflight_def plain_def dev_config_def)
qed

text \<open>
  Claim C9. \<^verbatim>\<open>socketIOConnections\<close> leaves the Socket.IO server and the world as they
  are: it registers no handler, and the server that \<^verbatim>\<open>createSocteIO\<close> constructs has none
  either.
\<close>

theorem socketIOConnections_no_effect:
  "socketIOConnections io w = (io, w)
   \<and> listeners (fst (socketIOConnections io w)) = listeners io
   \<and> listeners (fst (socketIOConnections (fst (createSocteIO_sync cfg w0)) w)) = []"
  by (simp add: socketIOConnections_def createSocteIO_sync_def Let_def)




end
